theory Spec2Isabelle
  imports Main
begin

section \<open>Consent routes of the experience API\<close>

text \<open>
  A shallow embedding of \<^verbatim>\<open>consentRoutes\<close> and its two helpers
  \<^verbatim>\<open>parseMissingResourceScopesInfo\<close> and \<^verbatim>\<open>filterAndParseMissingResourceScopes\<close>.
  A thrown error (a failed \<^verbatim>\<open>assertThat\<close>, a rejected promise) is the \<open>Inl\<close> branch of
  a sum, a JavaScript object walked with \<^verbatim>\<open>Object.entries\<close> is the list of its entries
  in iteration order, and the collaborators imported from other modules are fields of
  two parameter records.
\<close>

subsection \<open>Errors\<close>

datatype error =
    SessionNotFound
  | InvalidClient string
  | InvalidTarget string
  | InvalidRedirectUri string
  | NotAMember
  | OtherError string

fun isInvalidTarget :: "error \<Rightarrow> bool" where
  "isInvalidTarget (InvalidTarget m) = True"
| "isInvalidTarget e = False"

subsection \<open>Promises and objects\<close>

primrec rejections :: "('e + 'a) list \<Rightarrow> 'e list" where
  "rejections [] = []"
| "rejections (r # rs) = (case r of Inl e \<Rightarrow> e # rejections rs | Inr v \<Rightarrow> rejections rs)"

primrec fulfilments :: "('e + 'a) list \<Rightarrow> 'a list" where
  "fulfilments [] = []"
| "fulfilments (r # rs) = (case r of Inl e \<Rightarrow> fulfilments rs | Inr v \<Rightarrow> v # fulfilments rs)"

text \<open>
  \<^verbatim>\<open>Promise.all\<close>: when every promise fulfils, the values in the order of the input array;
  otherwise the rejection of the promise that settles first. Which one that is depends
  on the timing of the lookups, so it is a parameter: \<open>sched\<close> maps the rejections (in
  array order) to the position of the one that wins.
\<close>

definition Promise_all :: "('e list \<Rightarrow> nat) \<Rightarrow> ('e + 'a) list \<Rightarrow> 'e + 'a list" where
  "Promise_all sched ps =
     (let es = rejections ps
      in if es = [] then Inr (fulfilments ps) else Inl (es ! (sched es mod length es)))"

text \<open>
  Synchronous \<^verbatim>\<open>Array.prototype.map\<close> with a callback that may throw: the first throw,
  in array order, leaves the loop.
\<close>

fun map_throwing :: "('a \<Rightarrow> 'e + 'b) \<Rightarrow> 'a list \<Rightarrow> 'e + 'b list" where
  "map_throwing f [] = Inr []"
| "map_throwing f (x # xs) =
     (case f x of
        Inl e \<Rightarrow> Inl e
      | Inr y \<Rightarrow> (case map_throwing f xs of Inl e \<Rightarrow> Inl e | Inr ys \<Rightarrow> Inr (y # ys)))"

text \<open>
  Setting a property of an object: an existing key keeps its place and takes the new
  value, a new key goes to the end. \<^verbatim>\<open>Object.fromEntries\<close> sets the entries one by one
  on an empty object; the spread \<^verbatim>\<open>{ ...a, ...b }\<close> sets the entries of \<open>b\<close> on a copy of
  \<open>a\<close>.
\<close>

fun set_property :: "'k \<Rightarrow> 'v \<Rightarrow> ('k \<times> 'v) list \<Rightarrow> ('k \<times> 'v) list" where
  "set_property k v [] = [(k, v)]"
| "set_property k v ((k', v') # kvs) =
     (if k' = k then (k, v) # kvs else (k', v') # set_property k v kvs)"

definition spread :: "('k \<times> 'v) list \<Rightarrow> ('k \<times> 'v) list \<Rightarrow> ('k \<times> 'v) list" where
  "spread a b = foldl (\<lambda>obj (k, v). set_property k v obj) a b"

definition Object_fromEntries :: "('k \<times> 'v) list \<Rightarrow> ('k \<times> 'v) list" where
  "Object_fromEntries es = spread [] es"

subsection \<open>Data model\<close>

record resource =
  resource_id :: string
  resource_indicator :: string
  resource_name :: string

record scope =
  scope_id :: string
  scope_resourceId :: string
  scope_name :: string
  scope_description :: "string option"

record organization_scope =
  orgScope_id :: string
  orgScope_name :: string
  orgScope_description :: "string option"

record organization =
  organization_id :: string
  organization_name :: string

text \<open>
  What the callback of \<^verbatim>\<open>parseMissingResourceScopesInfo\<close> returns for one indicator,
  before the guard: the resource is the literal \<^verbatim>\<open>{ id, name }\<close> built for the
  organization indicator or the row of a resource, the scopes are organization scopes or
  resource scopes.
\<close>

datatype resource_value = ReservedResourceLiteral string string | ResourceRow resource

datatype scope_value = OrganizationScopeRow organization_scope | ScopeRow scope

record resource_with_scopes =
  rws_resource :: resource_value
  rws_scopes :: "scope_value list"

text \<open>The type \<^verbatim>\<open>MissingResourceScopes\<close>: \<^verbatim>\<open>{ resource: { id, name }, scopes: Scope[] }\<close>.\<close>

record resource_info =
  info_id :: string
  info_name :: string

record scope_info =
  sinfo_id :: string
  sinfo_name :: string
  sinfo_description :: "string option"

record missing_resource_scopes =
  mrs_resource :: resource_info
  mrs_scopes :: "scope_info list"

text \<open>
  Modelled from the spec: \<^verbatim>\<open>missingResourceScopesGuard\<close> is declared in the schemas
  package, which is not among the sources. The spec gives the shape it parses to, a
  record \<^verbatim>\<open>{ resource: {id, name}, scopes: Scope[] }\<close>; on the values the callback
  builds, which already have that shape, parsing keeps the identifier and the name of
  the resource and the identifier, name and description of every scope, in order.
\<close>

fun guard_resource :: "resource_value \<Rightarrow> resource_info" where
  "guard_resource (ReservedResourceLiteral i n) = \<lparr>info_id = i, info_name = n\<rparr>"
| "guard_resource (ResourceRow r) = \<lparr>info_id = resource_id r, info_name = resource_name r\<rparr>"

fun guard_scope :: "scope_value \<Rightarrow> scope_info" where
  "guard_scope (OrganizationScopeRow s) =
     \<lparr>sinfo_id = orgScope_id s, sinfo_name = orgScope_name s,
      sinfo_description = orgScope_description s\<rparr>"
| "guard_scope (ScopeRow s) =
     \<lparr>sinfo_id = scope_id s, sinfo_name = scope_name s,
      sinfo_description = scope_description s\<rparr>"

definition missingResourceScopesGuard_parse :: "resource_with_scopes \<Rightarrow> missing_resource_scopes" where
  "missingResourceScopesGuard_parse r =
     \<lparr>mrs_resource = guard_resource (rws_resource r), mrs_scopes = map guard_scope (rws_scopes r)\<rparr>"

text \<open>
  Modelled from the spec: \<^verbatim>\<open>ReservedResource.Organization\<close> and
  \<^verbatim>\<open>UserScope.Organizations\<close> are constants of the core kit, which is not among the
  sources. The spec says that one indicator value is reserved for the organizations
  pseudo-resource and that one OIDC scope stands for the organizations; the routes only
  compare with the two constants, and the general theorems below hold for any values.
\<close>

definition ReservedResource_Organization :: string where
  "ReservedResource_Organization = ''urn:logto:organization''"

definition UserScope_Organizations :: string where
  "UserScope_Organizations = ''urn:logto:scope:organizations''"

subsection \<open>Collaborators\<close>

text \<open>
  The part of \<^verbatim>\<open>Queries\<close> the routes call. A lookup that the source tests for a missing
  row returns an option; \<^verbatim>\<open>findAll\<close> returns the pair of the count and the rows.
\<close>

type_synonym json_object = "(string \<times> string) list"

record queries =
  organizations_scopes_findAll :: "nat \<times> organization_scope list"
  findResourceByIndicator :: "string \<Rightarrow> resource option"
  findScopeByNameAndResourceId :: "string \<Rightarrow> string \<Rightarrow> scope option"
  findApplicationById :: "string \<Rightarrow> error + json_object"
  safeFindSignInExperienceByApplicationId :: "string \<Rightarrow> json_object option"
  findUserById :: "string \<Rightarrow> error + json_object"
  getOrganizationsByUserId :: "string \<Rightarrow> organization list"

subsection \<open>parseMissingResourceScopesInfo\<close>

text \<open>The callback mapped over \<^verbatim>\<open>Object.entries(missingResourceScopes)\<close>.\<close>

definition organizationScopeByName :: "queries \<Rightarrow> string \<Rightarrow> error + scope_value" where
  "organizationScopeByName q scopeName =
     (case find (\<lambda>s. orgScope_name s = scopeName) (snd (organizations_scopes_findAll q)) of
        None \<Rightarrow>
          Inl (InvalidTarget
                (''scope with name '' @ scopeName @ '' not found for organization resource''))
      | Some s \<Rightarrow> Inr (OrganizationScopeRow s))"

definition resourceWithScopes :: "queries \<Rightarrow> (error list \<Rightarrow> nat) \<Rightarrow> string \<times> string list \<Rightarrow> error + resource_with_scopes" where
  "resourceWithScopes q sched entry =
     (case entry of (resourceIndicator, scopeNames) \<Rightarrow>
        if resourceIndicator = ReservedResource_Organization then
          (case map_throwing (organizationScopeByName q) scopeNames of
             Inl e \<Rightarrow> Inl e
           | Inr scopes \<Rightarrow>
               Inr \<lparr>rws_resource = ReservedResourceLiteral resourceIndicator resourceIndicator,
                    rws_scopes = scopes\<rparr>)
        else
          (case findResourceByIndicator q resourceIndicator of
             None \<Rightarrow>
               Inl (InvalidTarget
                     (''resource with indicator '' @ resourceIndicator @ '' not found''))
           | Some resource \<Rightarrow>
               (case Promise_all sched
                       (map (\<lambda>scopeName.
                               Inr (findScopeByNameAndResourceId q scopeName (resource_id resource)))
                            scopeNames) of
                  Inl e \<Rightarrow> Inl e
                | Inr scopes \<Rightarrow>
                    Inr \<lparr>rws_resource = ResourceRow resource,
                         rws_scopes = map ScopeRow (List.map_filter (\<lambda>s. s) scopes)\<rparr>)))"

definition parseMissingResourceScopesInfo :: "queries \<Rightarrow> (error list \<Rightarrow> nat) \<Rightarrow> (string \<times> string list) list option \<Rightarrow> error + missing_resource_scopes list" where
  "parseMissingResourceScopesInfo q sched missingResourceScopes =
     (case missingResourceScopes of
        None \<Rightarrow> Inr []
      | Some entries \<Rightarrow>
          (case Promise_all sched (map (resourceWithScopes q sched) entries) of
             Inl e \<Rightarrow> Inl e
           | Inr resourcesWithScopes \<Rightarrow>
               Inr (map missingResourceScopesGuard_parse
                      (filter (\<lambda>r. length (rws_scopes r) > 0) resourcesWithScopes))))"

subsection \<open>filterAndParseMissingResourceScopes\<close>

text \<open>
  The collaborators the routes import from modules that are not among the sources: the
  feature flag \<^verbatim>\<open>EnvSet.values.isDevFeaturesEnabled\<close>, \<^verbatim>\<open>findResourceScopes\<close> (its
  arguments are the indicator, the user, \<^verbatim>\<open>findFromOrganizations\<close> and the organization),
  \<^verbatim>\<open>getMissingScopes\<close> and \<^verbatim>\<open>consent\<close> of the session library, the membership
  validator of the application library and the three guards of the response. They are
  parameters; a collaborator that can throw returns a sum.
\<close>

record missing_scopes =
  ms_missingOIDCScope :: "string list option"
  ms_missingResourceScopes :: "(string \<times> string list) list option"

record session =
  accountId :: string

text \<open>
  The parameters \<^verbatim>\<open>client_id\<close> and \<^verbatim>\<open>redirect_uri\<close> have the type \<^verbatim>\<open>unknown\<close>:
  absent, a string, or a value of another type.
\<close>

datatype param = Undefined | StringValue string | OtherValue

record 'prompt interaction_details =
  details_session :: "session option"
  params_client_id :: param
  params_redirect_uri :: param
  details_prompt :: 'prompt

record 'prompt collaborators =
  isDevFeaturesEnabled :: bool
  findResourceScopes :: "string \<Rightarrow> string \<Rightarrow> bool \<Rightarrow> string option \<Rightarrow> scope_info list"
  getMissingScopes :: "'prompt \<Rightarrow> missing_scopes"
  consent :: "'prompt interaction_details \<Rightarrow> error + string"
  validateUserConsentOrganizationMembership :: "string \<Rightarrow> string list \<Rightarrow> error + unit"
  publicApplicationGuard_parse :: "json_object \<Rightarrow> error + json_object"
  applicationSignInExperienceGuard_parse :: "json_object \<Rightarrow> error + json_object"
  publicUserInfoGuard_parse :: "json_object \<Rightarrow> error + json_object"

text \<open>\<^verbatim>\<open>Boolean(organizationId)\<close>: an absent and an empty identifier are both falsy.\<close>

definition Boolean_string :: "string option \<Rightarrow> bool" where
  "Boolean_string v = (case v of None \<Rightarrow> False | Some s \<Rightarrow> s \<noteq> [])"

text \<open>The constant \<^verbatim>\<open>filteredResourceScopes\<close> of the function.\<close>

definition filteredResourceScopes :: "('prompt, 'z) collaborators_scheme \<Rightarrow> (error list \<Rightarrow> nat) \<Rightarrow> (string \<times> string list) list \<Rightarrow> string \<Rightarrow> string option \<Rightarrow> error + (string \<times> string list) list" where
  "filteredResourceScopes c sched resourceScopes userId organizationId =
     (case Promise_all sched
             (map (\<lambda>(resourceIndicator, missingScopes).
                     if \<not> isDevFeaturesEnabled c then Inr (resourceIndicator, missingScopes)
                     else
                       (let scopes = findResourceScopes c resourceIndicator userId
                                       (Boolean_string organizationId) organizationId
                        in Inr (resourceIndicator,
                                filter (\<lambda>scope. list_ex (\<lambda>s. sinfo_name s = scope) scopes)
                                  missingScopes)))
                  resourceScopes) of
        Inl e \<Rightarrow> Inl e
      | Inr entries \<Rightarrow> Inr (Object_fromEntries entries))"

definition filterAndParseMissingResourceScopes :: "('prompt, 'z) collaborators_scheme \<Rightarrow> queries \<Rightarrow> (error list \<Rightarrow> nat) \<Rightarrow> (string \<times> string list) list \<Rightarrow> string \<Rightarrow> string option \<Rightarrow> error + missing_resource_scopes list" where
  "filterAndParseMissingResourceScopes c q sched resourceScopes userId organizationId =
     (case filteredResourceScopes c sched resourceScopes userId organizationId of
        Inl e \<Rightarrow> Inl e
      | Inr filtered \<Rightarrow> parseMissingResourceScopesInfo q sched (Some filtered))"

subsection \<open>The POST handler\<close>

text \<open>
  What the handler does to the world outside it: every call of
  \<^verbatim>\<open>userConsentOrganizations.insert\<close> with the tuples it was given, in the order of the
  calls, and the number of times \<^verbatim>\<open>consent\<close> was asked to finish the interaction.
\<close>

record world =
  insertCalls :: "(string \<times> string \<times> string) list list"
  consentCalls :: nat

record post_response =
  redirectTo :: string

text \<open>\<^verbatim>\<open>value && typeof value === 'string'\<close>: the non-empty strings.\<close>

fun presentString :: "param \<Rightarrow> string option" where
  "presentString (StringValue s) = (if s = [] then None else Some s)"
| "presentString Undefined = None"
| "presentString OtherValue = None"

text \<open>\<^verbatim>\<open>organizationIds?.length\<close>: truthy for a list that is present and not empty.\<close>

fun hasLength :: "'a list option \<Rightarrow> bool" where
  "hasLength None = False"
| "hasLength (Some xs) = (xs \<noteq> [])"

definition consentRoutes_post :: "('prompt, 'z) collaborators_scheme \<Rightarrow> world \<Rightarrow> 'prompt interaction_details \<Rightarrow> string list option \<Rightarrow> (error + post_response) \<times> world" where
  "consentRoutes_post c w interactionDetails organizationIds =
     (let granted =
        (if hasLength organizationIds then
           (case details_session interactionDetails of
              None \<Rightarrow> Inl SessionNotFound
            | Some session \<Rightarrow>
                (case presentString (params_client_id interactionDetails) of
                   None \<Rightarrow> Inl (InvalidClient ''client must be available'')
                 | Some applicationId \<Rightarrow>
                     (let userId = accountId session in
                      case validateUserConsentOrganizationMembership c userId (the organizationIds) of
                        Inl e \<Rightarrow> Inl e
                      | Inr u \<Rightarrow>
                          Inr (w\<lparr>insertCalls := insertCalls w @
                                   [map (\<lambda>organizationId. (applicationId, userId, organizationId))
                                      (the organizationIds)]\<rparr>))))
         else Inr w)
      in case granted of
           Inl e \<Rightarrow> (Inl e, w)
         | Inr w' \<Rightarrow>
             (case consent c interactionDetails of
                Inl e \<Rightarrow> (Inl e, w'\<lparr>consentCalls := consentCalls w' + 1\<rparr>)
              | Inr redirect \<Rightarrow>
                  (Inr \<lparr>redirectTo = redirect\<rparr>, w'\<lparr>consentCalls := consentCalls w' + 1\<rparr>)))"

subsection \<open>The GET handler\<close>

record organization_entry =
  entry_name :: string
  entry_id :: string
  entry_missingResourceScopes :: "missing_resource_scopes list option"

record consent_info_response =
  response_application :: json_object
  response_user :: json_object
  response_organizations :: "organization_entry list"
  response_missingOIDCScope :: "string list option"
  response_missingResourceScopes :: "missing_resource_scopes list"
  response_redirectUri :: string

definition organizationWithMissingResourceScopes :: "('prompt, 'z) collaborators_scheme \<Rightarrow> queries \<Rightarrow> (error list \<Rightarrow> nat) \<Rightarrow> (string \<times> string list) list \<Rightarrow> string \<Rightarrow> organization \<Rightarrow> error + organization_entry" where
  "organizationWithMissingResourceScopes c q sched allMissingResourceScopes userId org =
     (if \<not> isDevFeaturesEnabled c then
        Inr \<lparr>entry_name = organization_name org, entry_id = organization_id org,
             entry_missingResourceScopes = None\<rparr>
      else
        (case filterAndParseMissingResourceScopes c q sched allMissingResourceScopes userId
                (Some (organization_id org)) of
           Inl e \<Rightarrow> Inl e
         | Inr missingResourceScopes \<Rightarrow>
             Inr \<lparr>entry_name = organization_name org, entry_id = organization_id org,
                  entry_missingResourceScopes = Some missingResourceScopes\<rparr>))"

text \<open>The object literal assigned to \<^verbatim>\<open>ctx.body\<close>; the guards run in the order of its fields.\<close>

definition consentBody :: "('prompt, 'z) collaborators_scheme \<Rightarrow> json_object \<Rightarrow> json_object option \<Rightarrow> json_object \<Rightarrow> organization_entry list \<Rightarrow> string list option \<Rightarrow> missing_resource_scopes list \<Rightarrow> string \<Rightarrow> error + consent_info_response" where
  "consentBody c application applicationSignInExperience userInfo organizations missingOIDCScope
       missingResourceScopes redirectUri =
     (case publicApplicationGuard_parse c application of
        Inl e \<Rightarrow> Inl e
      | Inr publicApplication \<Rightarrow>
          (case (case applicationSignInExperience of
                   None \<Rightarrow> Inr []
                 | Some experience \<Rightarrow> applicationSignInExperienceGuard_parse c experience) of
             Inl e \<Rightarrow> Inl e
           | Inr experience \<Rightarrow>
               (case publicUserInfoGuard_parse c userInfo of
                  Inl e \<Rightarrow> Inl e
                | Inr user \<Rightarrow>
                    Inr \<lparr>response_application = spread publicApplication experience,
                         response_user = user,
                         response_organizations = organizations,
                         response_missingOIDCScope =
                           map_option
                             (filter (\<lambda>scope. scope \<noteq> ''openid'' \<and> scope \<noteq> ''offline_access''))
                             missingOIDCScope,
                         response_missingResourceScopes = missingResourceScopes,
                         response_redirectUri = redirectUri\<rparr>)))"

text \<open>\<^verbatim>\<open>missingOIDCScope?.includes(UserScope.Organizations)\<close>.\<close>

definition includesOrganizations :: "string list option \<Rightarrow> bool" where
  "includesOrganizations missingOIDCScope =
     (case missingOIDCScope of None \<Rightarrow> False | Some l \<Rightarrow> UserScope_Organizations \<in> set l)"

definition consentRoutes_get :: "('prompt, 'z) collaborators_scheme \<Rightarrow> queries \<Rightarrow> (error list \<Rightarrow> nat) \<Rightarrow> 'prompt interaction_details \<Rightarrow> error + consent_info_response" where
  "consentRoutes_get c q sched interactionDetails =
     (case details_session interactionDetails of
        None \<Rightarrow> Inl SessionNotFound
      | Some session \<Rightarrow>
     (case presentString (params_client_id interactionDetails) of
        None \<Rightarrow> Inl (InvalidClient ''client must be available'')
      | Some clientId \<Rightarrow>
     (case presentString (params_redirect_uri interactionDetails) of
        None \<Rightarrow> Inl (InvalidRedirectUri ''redirect_uri must be available'')
      | Some redirectUri \<Rightarrow>
     (case findApplicationById q clientId of
        Inl e \<Rightarrow> Inl e
      | Inr application \<Rightarrow>
     (let applicationSignInExperience = safeFindSignInExperienceByApplicationId q clientId in
      case findUserById q (accountId session) of
        Inl e \<Rightarrow> Inl e
      | Inr userInfo \<Rightarrow>
     (let missing = getMissingScopes c (details_prompt interactionDetails);
          missingOIDCScope = ms_missingOIDCScope missing;
          allMissingResourceScopes =
            (case ms_missingResourceScopes missing of None \<Rightarrow> [] | Some m \<Rightarrow> m) in
      case filterAndParseMissingResourceScopes c q sched allMissingResourceScopes
             (accountId session) None of
        Inl e \<Rightarrow> Inl e
      | Inr missingResourceScopes \<Rightarrow>
     (let organizations =
            (if includesOrganizations missingOIDCScope
             then getOrganizationsByUserId q (accountId session) else []) in
      case Promise_all sched
             (map (organizationWithMissingResourceScopes c q sched allMissingResourceScopes
                     (accountId session))
                organizations) of
        Inl e \<Rightarrow> Inl e
      | Inr organizationsWithMissingResourceScopes \<Rightarrow>
          consentBody c application applicationSignInExperience userInfo
            organizationsWithMissingResourceScopes missingOIDCScope missingResourceScopes
            redirectUri)))))))"

subsection \<open>The membership validator\<close>

text \<open>
  Modelled from the spec: \<^verbatim>\<open>validateUserConsentOrganizationMembership\<close> belongs to the
  application library, which is not among the sources. The spec (4.4) gives its
  contract: for every identifier of the list the user must be a member; when one
  membership is missing the whole operation fails with a not-a-member error. The
  memberships are the parameter \<open>isMember\<close>.
\<close>

definition assertMembership :: "(string \<Rightarrow> string \<Rightarrow> bool) \<Rightarrow> string \<Rightarrow> string list \<Rightarrow> error + unit" where
  "assertMembership isMember userId organizationIds =
     (if list_all (isMember userId) organizationIds then Inr () else Inl NotAMember)"

subsection \<open>A concrete tenant\<close>

text \<open>
  One resource with one scope, one organization scope, one user who belongs to one
  organization, and a prompt that misses three OIDC scopes and two scopes of the
  resource, of which the second does not exist. The theorems below are instantiated on
  it.
\<close>

definition example_resource :: resource where
  "example_resource =
     \<lparr>resource_id = ''r1'', resource_indicator = ''https://api'', resource_name = ''API''\<rparr>"

definition example_scope :: scope where
  "example_scope =
     \<lparr>scope_id = ''s1'', scope_resourceId = ''r1'', scope_name = ''read'',
      scope_description = None\<rparr>"

definition example_organization_scope :: organization_scope where
  "example_organization_scope =
     \<lparr>orgScope_id = ''os1'', orgScope_name = ''invite'', orgScope_description = None\<rparr>"

definition example_findResourceByIndicator :: "string \<Rightarrow> resource option" where
  "example_findResourceByIndicator indicator =
     (if indicator = ''https://api'' then Some example_resource else None)"

definition example_findScopeByNameAndResourceId :: "string \<Rightarrow> string \<Rightarrow> scope option" where
  "example_findScopeByNameAndResourceId n resourceId =
     (if n = ''read'' \<and> resourceId = ''r1'' then Some example_scope else None)"

definition example_findById :: "string \<Rightarrow> error + json_object" where
  "example_findById i = Inr [(''id'', i)]"

definition example_getOrganizationsByUserId :: "string \<Rightarrow> organization list" where
  "example_getOrganizationsByUserId userId =
     (if userId = ''u1'' then [\<lparr>organization_id = ''org-1'', organization_name = ''One''\<rparr>] else [])"

definition example_queries :: queries where
  "example_queries =
     \<lparr>organizations_scopes_findAll = (1, [example_organization_scope]),
      findResourceByIndicator = example_findResourceByIndicator,
      findScopeByNameAndResourceId = example_findScopeByNameAndResourceId,
      findApplicationById = example_findById,
      safeFindSignInExperienceByApplicationId = (\<lambda>i. None),
      findUserById = example_findById,
      getOrganizationsByUserId = example_getOrganizationsByUserId\<rparr>"

definition example_isMember :: "string \<Rightarrow> string \<Rightarrow> bool" where
  "example_isMember userId organizationId = (userId = ''u1'' \<and> organizationId = ''org-1'')"

definition example_collaborators :: "missing_scopes collaborators" where
  "example_collaborators =
     \<lparr>isDevFeaturesEnabled = False,
      findResourceScopes = (\<lambda>indicator userId findFromOrganizations organizationId. []),
      getMissingScopes = (\<lambda>prompt. prompt),
      consent = (\<lambda>d. Inr ''https://app/callback''),
      validateUserConsentOrganizationMembership = assertMembership example_isMember,
      publicApplicationGuard_parse = Inr,
      applicationSignInExperienceGuard_parse = Inr,
      publicUserInfoGuard_parse = Inr\<rparr>"

definition example_prompt :: missing_scopes where
  "example_prompt =
     \<lparr>ms_missingOIDCScope = Some [''openid'', ''profile'', ''offline_access''],
      ms_missingResourceScopes = Some [(''https://api'', [''read'', ''write''])]\<rparr>"

definition example_details :: "missing_scopes interaction_details" where
  "example_details =
     \<lparr>details_session = Some \<lparr>accountId = ''u1''\<rparr>,
      params_client_id = StringValue ''app'',
      params_redirect_uri = StringValue ''https://app/callback'',
      details_prompt = example_prompt\<rparr>"

definition example_details_without_client :: "missing_scopes interaction_details" where
  "example_details_without_client = example_details\<lparr>params_client_id := Undefined\<rparr>"

definition example_details_without_session :: "missing_scopes interaction_details" where
  "example_details_without_session = example_details\<lparr>details_session := None\<rparr>"

definition example_world :: world where
  "example_world = \<lparr>insertCalls = [], consentCalls = 0\<rparr>"

definition first_settled :: "error list \<Rightarrow> nat" where
  "first_settled es = 0"

text \<open>
  The same tenant with the feature flag on and a scope resolver that, for the reserved
  indicator, returns the organization scope of the tenant; and a prompt that misses two
  scopes of the organization indicator, of which the second does not exist.
\<close>

definition example_findResourceScopes :: "string \<Rightarrow> string \<Rightarrow> bool \<Rightarrow> string option \<Rightarrow> scope_info list" where
  "example_findResourceScopes indicator userId findFromOrganizations organizationId =
     (if indicator = ReservedResource_Organization
      then [\<lparr>sinfo_id = ''os1'', sinfo_name = ''invite'', sinfo_description = None\<rparr>]
      else [])"

definition example_filtering_collaborators :: "missing_scopes collaborators" where
  "example_filtering_collaborators =
     example_collaborators
       \<lparr>isDevFeaturesEnabled := True, findResourceScopes := example_findResourceScopes\<rparr>"

definition example_organization_prompt :: missing_scopes where
  "example_organization_prompt =
     \<lparr>ms_missingOIDCScope = Some [''openid''],
      ms_missingResourceScopes = Some [(ReservedResource_Organization, [''invite'', ''x''])]\<rparr>"

definition example_organization_details :: "missing_scopes interaction_details" where
  "example_organization_details = example_details\<lparr>details_prompt := example_organization_prompt\<rparr>"

section \<open>Properties\<close>

subsection \<open>Promises, objects and the enricher\<close>

lemma rejections_append: "rejections (ps @ qs) = rejections ps @ rejections qs"
  by (induction ps) (auto split: sum.splits)

lemma fulfilments_append: "fulfilments (ps @ qs) = fulfilments ps @ fulfilments qs"
  by (induction ps) (auto split: sum.splits)

lemma set_rejections: "set (rejections ps) = {e. Inl e \<in> set ps}"
  by (induction ps) (auto split: sum.splits)

lemma rejections_Nil_iff: "rejections ps = [] \<longleftrightarrow> (\<forall>e. Inl e \<notin> set ps)"
  using set_rejections [of ps] by auto

lemma rejections_map_Inr: "rejections (map (\<lambda>x. Inr (f x)) xs) = []"
  by (induction xs) auto

lemma fulfilments_map_Inr: "fulfilments (map (\<lambda>x. Inr (f x)) xs) = map f xs"
  by (induction xs) auto

lemma Promise_all_Inr_iff:
  "Promise_all sched ps = Inr vs \<longleftrightarrow> rejections ps = [] \<and> vs = fulfilments ps"
  by (auto simp: Promise_all_def Let_def)

lemma Promise_all_Inl_mem:
  "Promise_all sched ps = Inl e \<Longrightarrow> e \<in> set (rejections ps)"
  by (auto simp: Promise_all_def Let_def split: if_splits)

lemma Promise_all_rejects:
  "rejections ps \<noteq> [] \<Longrightarrow> \<exists>e \<in> set (rejections ps). Promise_all sched ps = Inl e"
  by (simp add: Promise_all_def Let_def)

lemma Promise_all_map_Inr: "Promise_all sched (map (\<lambda>x. Inr (f x)) xs) = Inr (map f xs)"
  by (simp add: Promise_all_def rejections_map_Inr fulfilments_map_Inr)

lemma map_throwing_Inl: "map_throwing f xs = Inl e \<Longrightarrow> \<exists>x \<in> set xs. f x = Inl e"
  by (induction xs) (auto split: sum.splits)

lemma map_throwing_fails: "x \<in> set xs \<Longrightarrow> f x = Inl e \<Longrightarrow> \<exists>e'. map_throwing f xs = Inl e'"
  by (induction xs) (auto split: sum.splits)

lemma map_throwing_Inr: "map_throwing f xs = Inr ys \<Longrightarrow> map Inr ys = map f xs"
  by (induction xs arbitrary: ys) (auto split: sum.splits)

lemma organizationScopeByName_Inl:
  "organizationScopeByName q n = Inl e \<Longrightarrow> isInvalidTarget e"
  by (auto simp: organizationScopeByName_def split: option.splits)

lemma resourceWithScopes_Inl:
  "resourceWithScopes q sched entry = Inl e \<Longrightarrow> isInvalidTarget e"
  by (auto simp: resourceWithScopes_def Promise_all_map_Inr
      split: prod.splits if_splits sum.splits option.splits
      dest!: map_throwing_Inl organizationScopeByName_Inl)

lemma parse_Inl_InvalidTarget:
  "isInvalidTarget e" if "parseMissingResourceScopesInfo q sched m = Inl e"
proof (cases m)
  case None
  with that show ?thesis by (simp add: parseMissingResourceScopesInfo_def)
next
  case (Some entries)
  with that have "Promise_all sched (map (resourceWithScopes q sched) entries) = Inl e"
    by (simp add: parseMissingResourceScopesInfo_def split: sum.splits)
  then have "Inl e \<in> set (map (resourceWithScopes q sched) entries)"
    by (auto dest: Promise_all_Inl_mem simp: set_rejections)
  then obtain entry where "resourceWithScopes q sched entry = Inl e"
    by auto
  then show ?thesis by (rule resourceWithScopes_Inl)
qed

lemma parse_fails:
  assumes "entry \<in> set entries" "resourceWithScopes q sched entry = Inl e"
  shows "\<exists>e'. parseMissingResourceScopesInfo q sched (Some entries) = Inl e' \<and> isInvalidTarget e'"
proof -
  have "Inl e \<in> set (map (resourceWithScopes q sched) entries)"
    using assms by force
  then have "rejections (map (resourceWithScopes q sched) entries) \<noteq> []"
    by (auto simp: rejections_Nil_iff)
  then obtain e' where "Promise_all sched (map (resourceWithScopes q sched) entries) = Inl e'"
    using Promise_all_rejects by blast
  then have p: "parseMissingResourceScopesInfo q sched (Some entries) = Inl e'"
    by (simp add: parseMissingResourceScopesInfo_def)
  with parse_Inl_InvalidTarget show ?thesis by blast
qed

lemma isInvalidTarget_iff: "isInvalidTarget e \<longleftrightarrow> (\<exists>m. e = InvalidTarget m)"
  by (cases e) auto

lemma resourceWithScopes_sched:
  "resourceWithScopes q sched entry = resourceWithScopes q sched' entry"
  by (simp add: resourceWithScopes_def Promise_all_map_Inr split: prod.splits option.splits)

lemma parse_Inr_iff:
  "parseMissingResourceScopesInfo q sched (Some entries) = Inr out \<longleftrightarrow>
     rejections (map (resourceWithScopes q sched) entries) = [] \<and>
     out = map missingResourceScopesGuard_parse
             (filter (\<lambda>r. length (rws_scopes r) > 0)
                (fulfilments (map (resourceWithScopes q sched) entries)))"
  by (auto simp: parseMissingResourceScopesInfo_def Promise_all_def Let_def)

lemma parse_append:
  "parseMissingResourceScopesInfo q sched (Some (xs @ ys)) = Inr out \<longleftrightarrow>
     (\<exists>o1 o2. parseMissingResourceScopesInfo q sched (Some xs) = Inr o1 \<and>
              parseMissingResourceScopesInfo q sched (Some ys) = Inr o2 \<and> out = o1 @ o2)"
  by (auto simp: parse_Inr_iff rejections_append fulfilments_append)

lemma parse_sched:
  "parseMissingResourceScopesInfo q sched (Some entries) = Inr out \<Longrightarrow>
   parseMissingResourceScopesInfo q sched' (Some entries) = Inr out"
proof -
  have "resourceWithScopes q sched = resourceWithScopes q sched'"
    by (rule ext) (rule resourceWithScopes_sched)
  then show "parseMissingResourceScopesInfo q sched (Some entries) = Inr out \<Longrightarrow>
    parseMissingResourceScopesInfo q sched' (Some entries) = Inr out"
    by (simp add: parse_Inr_iff)
qed

lemma parse_Nil: "parseMissingResourceScopesInfo q sched (Some []) = Inr []"
  by (simp add: parse_Inr_iff)

lemma parse_single:
  "parseMissingResourceScopesInfo q sched (Some [entry]) =
     (case resourceWithScopes q sched entry of
        Inl e \<Rightarrow> Inl e
      | Inr r \<Rightarrow> Inr (if rws_scopes r = [] then [] else [missingResourceScopesGuard_parse r]))"
  by (simp add: parseMissingResourceScopesInfo_def Promise_all_def split: sum.splits)

lemma resourceWithScopes_resource:
  assumes "resourceIndicator \<noteq> ReservedResource_Organization"
    and "findResourceByIndicator q resourceIndicator = Some resource"
  shows "resourceWithScopes q sched (resourceIndicator, scopeNames) =
           Inr \<lparr>rws_resource = ResourceRow resource,
                rws_scopes =
                  map (\<lambda>n. ScopeRow (the (findScopeByNameAndResourceId q n (resource_id resource))))
                    (filter (\<lambda>n. findScopeByNameAndResourceId q n (resource_id resource) \<noteq> None)
                       scopeNames)\<rparr>"
  using assms
  by (simp add: resourceWithScopes_def Promise_all_map_Inr List.map_filter_def comp_def filter_map)

lemma set_property_fresh: "k \<notin> fst ` set kvs \<Longrightarrow> set_property k v kvs = kvs @ [(k, v)]"
  by (induction kvs) auto

lemma spread_distinct: "distinct (map fst (a @ b)) \<Longrightarrow> spread a b = a @ b"
proof (induction b arbitrary: a)
  case Nil
  then show ?case by (simp add: spread_def)
next
  case (Cons kv b)
  obtain k v where kv: "kv = (k, v)" by (cases kv)
  from Cons.prems kv have fresh: "k \<notin> fst ` set a" by auto
  from Cons.prems kv have "distinct (map fst ((a @ [(k, v)]) @ b))" by simp
  from Cons.IH [OF this] have "spread (a @ [(k, v)]) b = a @ (k, v) # b" by simp
  then show ?case
    using fresh kv by (simp add: spread_def set_property_fresh)
qed

lemma Object_fromEntries_distinct: "distinct (map fst es) \<Longrightarrow> Object_fromEntries es = es"
  using spread_distinct [of "[]" es] by (simp add: Object_fromEntries_def)

subsection \<open>The GET handler\<close>

lemma consentBody_Inr:
  "consentBody c application experience userInfo organizations missingOIDCScope
     missingResourceScopes redirectUri = Inr response \<Longrightarrow>
   response_organizations response = organizations \<and>
   response_missingOIDCScope response =
     map_option (filter (\<lambda>scope. scope \<noteq> ''openid'' \<and> scope \<noteq> ''offline_access''))
       missingOIDCScope"
  by (auto simp: consentBody_def split: sum.splits)

lemma consentRoutes_get_Inr:
  assumes "consentRoutes_get c q sched d = Inr response"
  shows "Promise_all sched
           (map (organizationWithMissingResourceScopes c q sched
                   (case ms_missingResourceScopes (getMissingScopes c (details_prompt d)) of
                      None \<Rightarrow> [] | Some m \<Rightarrow> m)
                   (accountId (the (details_session d))))
              (if includesOrganizations (ms_missingOIDCScope (getMissingScopes c (details_prompt d)))
               then getOrganizationsByUserId q (accountId (the (details_session d))) else []))
           = Inr (response_organizations response) \<and>
         response_missingOIDCScope response =
           map_option (filter (\<lambda>scope. scope \<noteq> ''openid'' \<and> scope \<noteq> ''offline_access''))
             (ms_missingOIDCScope (getMissingScopes c (details_prompt d)))"
  using assms
  by (auto simp: consentRoutes_get_def Let_def split: option.splits sum.splits
      dest!: consentBody_Inr)

lemma resourceWithScopes_getOrganizations:
  "resourceWithScopes (q\<lparr>getOrganizationsByUserId := lookup\<rparr>) sched entry
     = resourceWithScopes q sched entry"
  by (simp add: resourceWithScopes_def organizationScopeByName_def [abs_def]
      split: prod.splits option.splits)

lemma parse_getOrganizations:
  "parseMissingResourceScopesInfo (q\<lparr>getOrganizationsByUserId := lookup\<rparr>) sched m
     = parseMissingResourceScopesInfo q sched m"
proof -
  have "resourceWithScopes (q\<lparr>getOrganizationsByUserId := lookup\<rparr>) sched
          = resourceWithScopes q sched"
    by (rule ext) (rule resourceWithScopes_getOrganizations)
  then show ?thesis
    by (simp add: parseMissingResourceScopesInfo_def split: option.splits)
qed

lemma filterAndParse_getOrganizations:
  "filterAndParseMissingResourceScopes c (q\<lparr>getOrganizationsByUserId := lookup\<rparr>) sched rs u org
     = filterAndParseMissingResourceScopes c q sched rs u org"
  by (simp add: filterAndParseMissingResourceScopes_def parse_getOrganizations split: sum.splits)

lemma Promise_all_Nil: "Promise_all sched [] = Inr []"
  by (simp add: Promise_all_def)

lemma parse_organization_scope_missing:
  assumes "(ReservedResource_Organization, scopeNames) \<in> set entries"
    and "scopeName \<in> set scopeNames"
    and "scopeName \<notin> set (map orgScope_name (snd (organizations_scopes_findAll q)))"
  shows "\<exists>message. parseMissingResourceScopesInfo q sched (Some entries) = Inl (InvalidTarget message)"
proof -
  have "find (\<lambda>s. orgScope_name s = scopeName) (snd (organizations_scopes_findAll q)) = None"
    using assms(3) by (auto simp: find_None_iff)
  then have "organizationScopeByName q scopeName =
      Inl (InvalidTarget (''scope with name '' @ scopeName @ '' not found for organization resource''))"
    by (simp add: organizationScopeByName_def)
  from map_throwing_fails [of scopeName scopeNames "organizationScopeByName q", OF assms(2) this]
  obtain e where "map_throwing (organizationScopeByName q) scopeNames = Inl e" ..
  then have "resourceWithScopes q sched (ReservedResource_Organization, scopeNames) = Inl e"
    by (simp add: resourceWithScopes_def)
  from parse_fails [OF assms(1) this] show ?thesis
    by (auto simp: isInvalidTarget_iff)
qed

lemma filterAndParse_flag_off:
  assumes "\<not> isDevFeaturesEnabled c"
    and "distinct (map fst resourceScopes)"
  shows "filterAndParseMissingResourceScopes c q sched resourceScopes userId organizationId =
           parseMissingResourceScopesInfo q sched (Some resourceScopes)"
proof -
  have "map (\<lambda>(resourceIndicator, missingScopes). Inr (resourceIndicator, missingScopes)) resourceScopes
          = map (\<lambda>entry. Inr (id entry)) resourceScopes"
    by (simp add: case_prod_beta)
  then have "filteredResourceScopes c sched resourceScopes userId organizationId
               = Inr (Object_fromEntries resourceScopes)"
    using assms(1) Promise_all_map_Inr [of sched id resourceScopes]
    by (simp add: filteredResourceScopes_def)
  then show ?thesis
    using assms(2) by (simp add: Object_fromEntries_distinct filterAndParseMissingResourceScopes_def)
qed

lemma consentRoutes_get_enricher_fails:
  assumes "details_session d = Some session"
    and "presentString (params_client_id d) = Some clientId"
    and "presentString (params_redirect_uri d) = Some redirectUri"
    and "findApplicationById q clientId = Inr application"
    and "findUserById q (accountId session) = Inr userInfo"
    and "ms_missingResourceScopes (getMissingScopes c (details_prompt d)) = Some entries"
    and "filterAndParseMissingResourceScopes c q sched entries (accountId session) None = Inl e"
  shows "consentRoutes_get c q sched d = Inl e"
  using assms by (simp add: consentRoutes_get_def Let_def)

subsection \<open>The claims\<close>

text \<open>
  C1, as amended. A POST request whose \<open>organizationIds\<close> holds an organization the
  user is not a member of fails, no insert is made and \<^verbatim>\<open>consent\<close> is not called: the
  world is the one before the request. The error is the membership error when the
  interaction has a session and a non-empty string \<^verbatim>\<open>client_id\<close>; without a session it
  is \<^verbatim>\<open>session.not_found\<close>, and without such a \<^verbatim>\<open>client_id\<close> it is the invalid-client
  error, both thrown before the memberships are looked at. The validator is the one
  modelled from the spec.
\<close>

theorem non_member_blocks_consent:
  assumes "validateUserConsentOrganizationMembership c = assertMembership isMember"
    and "organizationId \<in> set organizationIds"
    and "\<forall>session. details_session d = Some session \<longrightarrow> \<not> isMember (accountId session) organizationId"
  shows "consentRoutes_post c w d (Some organizationIds) =
           (Inl (if details_session d = None then SessionNotFound
                 else if presentString (params_client_id d) = None
                   then InvalidClient ''client must be available''
                 else NotAMember),
            w)"
proof -
  from assms(2) have ne: "organizationIds \<noteq> []" by auto
  have "\<not> list_all (isMember (accountId session)) organizationIds"
    if "details_session d = Some session" for session
    using that assms(2,3) by (auto simp: list_all_iff)
  then show ?thesis
    using ne assms(1)
    by (auto simp: consentRoutes_post_def assertMembership_def split: option.splits)
qed

text \<open>
  On the concrete tenant: the user belongs to \<open>org-1\<close> only, and the request names
  \<open>org-1\<close> and \<open>org-2\<close>.
\<close>

theorem non_member_blocks_consent_witness:
  "consentRoutes_post example_collaborators example_world example_details
     (Some [''org-1'', ''org-2''])
   = (Inl NotAMember, example_world) \<and>
   consentRoutes_post example_collaborators example_world example_details_without_session
     (Some [''org-1'', ''org-2''])
   = (Inl SessionNotFound, example_world)"
proof -
  have h1: "validateUserConsentOrganizationMembership example_collaborators
              = assertMembership example_isMember"
    by (simp add: example_collaborators_def)
  have h2: "''org-2'' \<in> set [''org-1'', ''org-2'']" by simp
  have h3: "\<forall>session. details_session example_details = Some session \<longrightarrow>
              \<not> example_isMember (accountId session) ''org-2''"
    by (simp add: example_isMember_def)
  have h4: "\<forall>session. details_session example_details_without_session = Some session \<longrightarrow>
              \<not> example_isMember (accountId session) ''org-2''"
    by (simp add: example_isMember_def)
  from non_member_blocks_consent [OF h1 h2 h3, of example_world]
    non_member_blocks_consent [OF h1 h2 h4, of example_world]
  show ?thesis
    by (simp add: example_details_def example_details_without_session_def)
qed

text \<open>
  C1 as it is written promises the membership error for every such request. With a
  session and no \<^verbatim>\<open>client_id\<close> the same request fails with the invalid-client error
  instead.
\<close>

theorem membership_error_counterexample:
  "validateUserConsentOrganizationMembership example_collaborators = assertMembership example_isMember \<and>
   ''org-2'' \<in> set [''org-1'', ''org-2''] \<and>
   \<not> example_isMember ''u1'' ''org-2'' \<and>
   details_session example_details_without_client = Some \<lparr>accountId = ''u1''\<rparr> \<and>
   consentRoutes_post example_collaborators example_world example_details_without_client
     (Some [''org-1'', ''org-2''])
   = (Inl (InvalidClient ''client must be available''), example_world) \<and>
   InvalidClient ''client must be available'' \<noteq> NotAMember"
  by (simp add: consentRoutes_post_def example_collaborators_def example_isMember_def
      example_details_without_client_def example_details_def)

text \<open>
  C2. A POST request with a non-empty \<open>organizationIds\<close>, a session and a non-empty
  string \<^verbatim>\<open>client_id\<close>, for which the membership validation succeeds: the handler makes
  one call of \<^verbatim>\<open>insert\<close> with one tuple (application, user, organization) for every
  identifier of the list, in order, and answers with the redirect target that
  \<^verbatim>\<open>consent\<close> returns.
\<close>

theorem grants_persisted_then_consent:
  assumes "organizationIds \<noteq> []"
    and "details_session d = Some session"
    and "params_client_id d = StringValue applicationId"
    and "applicationId \<noteq> []"
    and "validateUserConsentOrganizationMembership c (accountId session) organizationIds = Inr ()"
    and "consent c d = Inr redirect"
  shows "consentRoutes_post c w d (Some organizationIds) =
           (Inr \<lparr>redirectTo = redirect\<rparr>,
            w\<lparr>insertCalls := insertCalls w @
                 [map (\<lambda>organizationId. (applicationId, accountId session, organizationId))
                    organizationIds],
              consentCalls := consentCalls w + 1\<rparr>)"
  using assms by (simp add: consentRoutes_post_def)

text \<open>
  On the concrete tenant: the user grants \<open>org-1\<close>, of which it is a member.
\<close>

theorem grants_persisted_then_consent_witness:
  "consentRoutes_post example_collaborators example_world example_details (Some [''org-1''])
     = (Inr \<lparr>redirectTo = ''https://app/callback''\<rparr>,
        \<lparr>insertCalls = [[(''app'', ''u1'', ''org-1'')]], consentCalls = 1\<rparr>)"
proof -
  have h1: "[''org-1''] \<noteq> []" by simp
  have h2: "details_session example_details = Some \<lparr>accountId = ''u1''\<rparr>"
    by (simp add: example_details_def)
  have h3: "params_client_id example_details = StringValue ''app''"
    by (simp add: example_details_def)
  have h4: "''app'' \<noteq> []" by simp
  have h5: "validateUserConsentOrganizationMembership example_collaborators
              (accountId \<lparr>accountId = ''u1''\<rparr>) [''org-1''] = Inr ()"
    by (simp add: example_collaborators_def assertMembership_def example_isMember_def)
  have h6: "consent example_collaborators example_details = Inr ''https://app/callback''"
    by (simp add: example_collaborators_def)
  from grants_persisted_then_consent [OF h1 h2 h3 h4 h5 h6, of example_world]
  show ?thesis by (simp add: example_world_def)
qed

text \<open>
  C3, as amended. When the mapping given to \<^verbatim>\<open>parseMissingResourceScopesInfo\<close> holds
  the reserved organization indicator with a scope name that no organization scope has,
  the call fails with an invalid-target error, whatever the other entries are and
  whichever rejection settles first. When \<^verbatim>\<open>isDevFeaturesEnabled\<close> is off, the mapping of
  the prompt reaches the enricher unchanged, and a GET request that passes the
  assertions of the handler and finds its application and user fails with that
  invalid-target error.
\<close>

theorem organization_scope_not_found_is_fatal:
  assumes "(ReservedResource_Organization, scopeNames) \<in> set entries"
    and "scopeName \<in> set scopeNames"
    and "scopeName \<notin> set (map orgScope_name (snd (organizations_scopes_findAll q)))"
  shows "(\<exists>message. parseMissingResourceScopesInfo q sched (Some entries) = Inl (InvalidTarget message)) \<and>
         (\<not> isDevFeaturesEnabled c \<and>
          distinct (map fst entries) \<and>
          details_session d = Some session \<and>
          presentString (params_client_id d) = Some clientId \<and>
          presentString (params_redirect_uri d) = Some redirectUri \<and>
          findApplicationById q clientId = Inr application \<and>
          findUserById q (accountId session) = Inr userInfo \<and>
          ms_missingResourceScopes (getMissingScopes c (details_prompt d)) = Some entries \<longrightarrow>
          (\<exists>message. consentRoutes_get c q sched d = Inl (InvalidTarget message)))"
proof -
  from parse_organization_scope_missing [OF assms, of sched]
  obtain message where
    enricher: "parseMissingResourceScopesInfo q sched (Some entries) = Inl (InvalidTarget message)" ..
  have "consentRoutes_get c q sched d = Inl (InvalidTarget message)"
    if off: "\<not> isDevFeaturesEnabled c" and keys: "distinct (map fst entries)"
      and s: "details_session d = Some session"
      and cl: "presentString (params_client_id d) = Some clientId"
      and r: "presentString (params_redirect_uri d) = Some redirectUri"
      and a: "findApplicationById q clientId = Inr application"
      and u: "findUserById q (accountId session) = Inr userInfo"
      and m: "ms_missingResourceScopes (getMissingScopes c (details_prompt d)) = Some entries"
  proof -
    have "filterAndParseMissingResourceScopes c q sched entries (accountId session) None
            = Inl (InvalidTarget message)"
      using filterAndParse_flag_off [OF off keys, of q sched "accountId session" None] enricher
      by simp
    from consentRoutes_get_enricher_fails [OF s cl r a u m this] show ?thesis .
  qed
  with enricher show ?thesis by simp
qed

text \<open>
  On the concrete tenant, with the flag off: the only organization scope is \<open>invite\<close>,
  and the prompt asks for \<open>x\<close> as well.
\<close>

theorem organization_scope_not_found_is_fatal_witness:
  "(ReservedResource_Organization, [''invite'', ''x''])
     \<in> set [(ReservedResource_Organization, [''invite'', ''x''])] \<and>
   ''x'' \<in> set [''invite'', ''x''] \<and>
   ''x'' \<notin> set (map orgScope_name (snd (organizations_scopes_findAll example_queries))) \<and>
   \<not> isDevFeaturesEnabled example_collaborators \<and>
   distinct (map fst [(ReservedResource_Organization, [''invite'', ''x''])]) \<and>
   details_session example_organization_details = Some \<lparr>accountId = ''u1''\<rparr> \<and>
   presentString (params_client_id example_organization_details) = Some ''app'' \<and>
   presentString (params_redirect_uri example_organization_details) = Some ''https://app/callback'' \<and>
   findApplicationById example_queries ''app'' = Inr [(''id'', ''app'')] \<and>
   findUserById example_queries (accountId \<lparr>accountId = ''u1''\<rparr>) = Inr [(''id'', ''u1'')] \<and>
   ms_missingResourceScopes
     (getMissingScopes example_collaborators (details_prompt example_organization_details))
     = Some [(ReservedResource_Organization, [''invite'', ''x''])] \<and>
   (\<exists>message.
      parseMissingResourceScopesInfo example_queries first_settled
        (Some [(ReservedResource_Organization, [''invite'', ''x''])])
      = Inl (InvalidTarget message)) \<and>
   (\<exists>message.
      consentRoutes_get example_collaborators example_queries first_settled
        example_organization_details
      = Inl (InvalidTarget message))"
proof -
  have h1: "(ReservedResource_Organization, [''invite'', ''x''])
     \<in> set [(ReservedResource_Organization, [''invite'', ''x''])]"
    by simp
  have h2: "''x'' \<in> set [''invite'', ''x'']"
    by simp
  have h3: "''x'' \<notin> set (map orgScope_name (snd (organizations_scopes_findAll example_queries)))"
    by (simp add: example_queries_def example_organization_scope_def)
  have p1: "\<not> isDevFeaturesEnabled example_collaborators"
    by (simp add: example_collaborators_def)
  have p2: "distinct (map fst [(ReservedResource_Organization, [''invite'', ''x''])])"
    by simp
  have p3: "details_session example_organization_details = Some \<lparr>accountId = ''u1''\<rparr>"
    by (simp add: example_organization_details_def example_details_def)
  have p4: "presentString (params_client_id example_organization_details) = Some ''app''"
    by (simp add: example_organization_details_def example_details_def)
  have p5: "presentString (params_redirect_uri example_organization_details)
              = Some ''https://app/callback''"
    by (simp add: example_organization_details_def example_details_def)
  have p6: "findApplicationById example_queries ''app'' = Inr [(''id'', ''app'')]"
    by (simp add: example_queries_def example_findById_def)
  have p7: "findUserById example_queries (accountId \<lparr>accountId = ''u1''\<rparr>) = Inr [(''id'', ''u1'')]"
    by (simp add: example_queries_def example_findById_def)
  have p8: "ms_missingResourceScopes
     (getMissingScopes example_collaborators (details_prompt example_organization_details))
     = Some [(ReservedResource_Organization, [''invite'', ''x''])]"
    by (simp add: example_collaborators_def example_organization_details_def
        example_organization_prompt_def)
  note t = organization_scope_not_found_is_fatal [OF h1 h2 h3,
      of first_settled example_collaborators example_organization_details
        "\<lparr>accountId = ''u1''\<rparr>" "''app''" "''https://app/callback''"
        "[(''id'', ''app'')]" "[(''id'', ''u1'')]"]
  note c1 = t [THEN conjunct1]
  have c2: "\<exists>message.
      consentRoutes_get example_collaborators example_queries first_settled
        example_organization_details
      = Inl (InvalidTarget message)"
    by (rule t [THEN conjunct2, THEN mp]) (intro conjI p1 p2 p3 p4 p5 p6 p7 p8)
  from h1 h2 h3 p1 p2 p3 p4 p5 p6 p7 p8 c1 c2 show ?thesis by (intro conjI)
qed

text \<open>
  C3 as it is written promises the failure of the read request for every requested name
  that does not resolve. The handler filters the mapping before the enricher sees it:
  with \<^verbatim>\<open>isDevFeaturesEnabled\<close> on and a resolver that returns the organization scopes for
  the reserved indicator, the name \<open>x\<close> is dropped by the filter and the same request
  answers, listing \<open>invite\<close> alone.
\<close>

theorem organization_scope_dropped_by_filter_counterexample:
  "isDevFeaturesEnabled example_filtering_collaborators \<and>
   ms_missingResourceScopes
     (getMissingScopes example_filtering_collaborators (details_prompt example_organization_details))
     = Some [(ReservedResource_Organization, [''invite'', ''x''])] \<and>
   ''x'' \<notin> set (map orgScope_name (snd (organizations_scopes_findAll example_queries))) \<and>
   consentRoutes_get example_filtering_collaborators example_queries first_settled
     example_organization_details
   = Inr \<lparr>response_application = [(''id'', ''app'')],
          response_user = [(''id'', ''u1'')],
          response_organizations = [],
          response_missingOIDCScope = Some [],
          response_missingResourceScopes =
            [\<lparr>mrs_resource = \<lparr>info_id = ReservedResource_Organization,
                               info_name = ReservedResource_Organization\<rparr>,
              mrs_scopes = [\<lparr>sinfo_id = ''os1'', sinfo_name = ''invite'',
                              sinfo_description = None\<rparr>]\<rparr>],
          response_redirectUri = ''https://app/callback''\<rparr>"
proof -
  have a: "isDevFeaturesEnabled example_filtering_collaborators"
    by (simp add: example_filtering_collaborators_def)
  have b: "ms_missingResourceScopes
     (getMissingScopes example_filtering_collaborators (details_prompt example_organization_details))
     = Some [(ReservedResource_Organization, [''invite'', ''x''])]"
    by (simp add: example_filtering_collaborators_def example_collaborators_def
        example_organization_details_def example_organization_prompt_def)
  have c: "''x'' \<notin> set (map orgScope_name (snd (organizations_scopes_findAll example_queries)))"
    by (simp add: example_queries_def example_organization_scope_def)
  have d: "consentRoutes_get example_filtering_collaborators example_queries first_settled
     example_organization_details
   = Inr \<lparr>response_application = [(''id'', ''app'')],
          response_user = [(''id'', ''u1'')],
          response_organizations = [],
          response_missingOIDCScope = Some [],
          response_missingResourceScopes =
            [\<lparr>mrs_resource = \<lparr>info_id = ReservedResource_Organization,
                               info_name = ReservedResource_Organization\<rparr>,
              mrs_scopes = [\<lparr>sinfo_id = ''os1'', sinfo_name = ''invite'',
                              sinfo_description = None\<rparr>]\<rparr>],
          response_redirectUri = ''https://app/callback''\<rparr>"
    by code_simp
  from a b c d show ?thesis by (intro conjI)
qed

text \<open>
  C4. For an indicator other than the reserved one that resolves to a resource: the
  call on this entry alone succeeds, and its record holds the scopes of exactly the
  requested names that resolve on the resource, in order; when none resolves there is
  no record. Inside a larger mapping whose call succeeds, the output is the output for
  the entries before, then this record (or nothing), then the output for the entries
  after, and no record of the output has an empty list of scopes.
\<close>

theorem unresolved_scopes_of_resource_are_dropped:
  assumes "resourceIndicator \<noteq> ReservedResource_Organization"
    and "findResourceByIndicator q resourceIndicator = Some resource"
  shows
    "(let resolving = filter (\<lambda>scopeName.
                         findScopeByNameAndResourceId q scopeName (resource_id resource) \<noteq> None)
                       scopeNames;
          records =
            (if resolving = [] then []
             else [\<lparr>mrs_resource =
                      \<lparr>info_id = resource_id resource, info_name = resource_name resource\<rparr>,
                    mrs_scopes =
                      map (\<lambda>scopeName.
                             guard_scope (ScopeRow (the (findScopeByNameAndResourceId q scopeName
                                                           (resource_id resource)))))
                        resolving\<rparr>])
      in parseMissingResourceScopesInfo q sched (Some [(resourceIndicator, scopeNames)]) = Inr records \<and>
         (\<forall>before after out.
            parseMissingResourceScopesInfo q sched
              (Some (before @ (resourceIndicator, scopeNames) # after)) = Inr out \<longrightarrow>
            [] \<notin> set (map mrs_scopes out) \<and>
            (\<exists>o1 o2. parseMissingResourceScopesInfo q sched (Some before) = Inr o1 \<and>
                     parseMissingResourceScopesInfo q sched (Some after) = Inr o2 \<and>
                     out = o1 @ records @ o2)))"
proof -
  define resolving where "resolving = filter (\<lambda>scopeName.
      findScopeByNameAndResourceId q scopeName (resource_id resource) \<noteq> None) scopeNames"
  define records where "records =
    (if resolving = [] then []
     else [\<lparr>mrs_resource = \<lparr>info_id = resource_id resource, info_name = resource_name resource\<rparr>,
            mrs_scopes =
              map (\<lambda>scopeName.
                     guard_scope (ScopeRow (the (findScopeByNameAndResourceId q scopeName
                                                   (resource_id resource)))))
                resolving\<rparr>])"
  have single: "parseMissingResourceScopesInfo q sched (Some [(resourceIndicator, scopeNames)]) = Inr records"
    by (simp add: parse_single resourceWithScopes_resource [OF assms] records_def resolving_def
        missingResourceScopesGuard_parse_def)
  have nonempty: "[] \<notin> set (map mrs_scopes out)"
    if "parseMissingResourceScopesInfo q sched (Some entries) = Inr out" for entries out
    using that by (auto simp: parse_Inr_iff missingResourceScopesGuard_parse_def)
  have inside: "\<exists>o1 o2. parseMissingResourceScopesInfo q sched (Some before) = Inr o1 \<and>
                     parseMissingResourceScopesInfo q sched (Some after) = Inr o2 \<and>
                     out = o1 @ records @ o2"
    if "parseMissingResourceScopesInfo q sched
              (Some (before @ (resourceIndicator, scopeNames) # after)) = Inr out" for before after out
  proof -
    from that obtain o1 o' where o1: "parseMissingResourceScopesInfo q sched (Some before) = Inr o1"
      and o': "parseMissingResourceScopesInfo q sched (Some ((resourceIndicator, scopeNames) # after)) = Inr o'"
      and out: "out = o1 @ o'"
      by (auto simp: parse_append)
    from o' obtain o2 where "parseMissingResourceScopesInfo q sched (Some after) = Inr o2"
      and "o' = records @ o2"
      using parse_append [of q sched "[(resourceIndicator, scopeNames)]" after o'] single by auto
    with o1 out show ?thesis by auto
  qed
  from single nonempty inside show ?thesis
    unfolding Let_def resolving_def [symmetric] records_def [symmetric] by blast
qed

text \<open>
  On the concrete tenant: of \<open>read\<close> and \<open>write\<close> only \<open>read\<close> exists on the resource.
\<close>

theorem unresolved_scopes_of_resource_are_dropped_witness:
  "''https://api'' \<noteq> ReservedResource_Organization \<and>
   findResourceByIndicator example_queries ''https://api'' = Some example_resource \<and>
   parseMissingResourceScopesInfo example_queries first_settled
     (Some [(''https://api'', [''read'', ''write''])])
   = Inr [\<lparr>mrs_resource = \<lparr>info_id = ''r1'', info_name = ''API''\<rparr>,
           mrs_scopes = [\<lparr>sinfo_id = ''s1'', sinfo_name = ''read'', sinfo_description = None\<rparr>]\<rparr>] \<and>
   parseMissingResourceScopesInfo example_queries first_settled (Some [(''https://api'', [''write''])])
   = Inr []"
proof -
  have h1: "''https://api'' \<noteq> ReservedResource_Organization"
    by (simp add: ReservedResource_Organization_def)
  have h2: "findResourceByIndicator example_queries ''https://api'' = Some example_resource"
    by (simp add: example_queries_def example_findResourceByIndicator_def)
  note t = unresolved_scopes_of_resource_are_dropped [OF h1 h2, of _ first_settled,
      unfolded Let_def, THEN conjunct1]
  have c1: "parseMissingResourceScopesInfo example_queries first_settled
     (Some [(''https://api'', [''read'', ''write''])])
   = Inr [\<lparr>mrs_resource = \<lparr>info_id = ''r1'', info_name = ''API''\<rparr>,
           mrs_scopes = [\<lparr>sinfo_id = ''s1'', sinfo_name = ''read'', sinfo_description = None\<rparr>]\<rparr>]"
    using t [of "[''read'', ''write'']"]
    by (simp add: example_queries_def example_findScopeByNameAndResourceId_def
        example_resource_def example_scope_def)
  have c2: "parseMissingResourceScopesInfo example_queries first_settled
     (Some [(''https://api'', [''write''])]) = Inr []"
    using t [of "[''write'']"]
    by (simp add: example_queries_def example_findScopeByNameAndResourceId_def
        example_resource_def example_scope_def)
  from h1 h2 c1 c2 show ?thesis by (intro conjI)
qed

text \<open>
  C5. Whenever the GET handler answers, the \<open>missingOIDCScope\<close> of the response is the
  list the prompt reports without \<open>openid\<close> and \<open>offline_access\<close>; so it contains
  neither of them.
\<close>

theorem reserved_oidc_scopes_never_surface:
  assumes "consentRoutes_get c q sched d = Inr response"
  shows "response_missingOIDCScope response =
           map_option (filter (\<lambda>scope. scope \<noteq> ''openid'' \<and> scope \<noteq> ''offline_access''))
             (ms_missingOIDCScope (getMissingScopes c (details_prompt d))) \<and>
         (\<forall>scopes. response_missingOIDCScope response = Some scopes \<longrightarrow>
            ''openid'' \<notin> set scopes \<and> ''offline_access'' \<notin> set scopes)"
  using consentRoutes_get_Inr [OF assms] by auto

text \<open>
  On the concrete tenant: the prompt reports \<open>openid\<close>, \<open>profile\<close> and
  \<open>offline_access\<close> as missing, and the response keeps \<open>profile\<close>.
\<close>

theorem reserved_oidc_scopes_never_surface_witness:
  "ms_missingOIDCScope (getMissingScopes example_collaborators (details_prompt example_details))
     = Some [''openid'', ''profile'', ''offline_access''] \<and>
   consentRoutes_get example_collaborators example_queries first_settled example_details =
     Inr \<lparr>response_application = [(''id'', ''app'')],
          response_user = [(''id'', ''u1'')], response_organizations = [],
          response_missingOIDCScope = Some [''profile''],
          response_missingResourceScopes =
            [\<lparr>mrs_resource = \<lparr>info_id = ''r1'', info_name = ''API''\<rparr>,
              mrs_scopes = [\<lparr>sinfo_id = ''s1'', sinfo_name = ''read'', sinfo_description = None\<rparr>]\<rparr>],
          response_redirectUri = ''https://app/callback''\<rparr> \<and>
   ''openid'' \<notin> set [''profile''] \<and> ''offline_access'' \<notin> set [''profile'']"
proof -
  have h: "consentRoutes_get example_collaborators example_queries first_settled example_details =
     Inr \<lparr>response_application = [(''id'', ''app'')],
          response_user = [(''id'', ''u1'')], response_organizations = [],
          response_missingOIDCScope = Some [''profile''],
          response_missingResourceScopes =
            [\<lparr>mrs_resource = \<lparr>info_id = ''r1'', info_name = ''API''\<rparr>,
              mrs_scopes = [\<lparr>sinfo_id = ''s1'', sinfo_name = ''read'', sinfo_description = None\<rparr>]\<rparr>],
          response_redirectUri = ''https://app/callback''\<rparr>"
    by code_simp
  have p: "ms_missingOIDCScope (getMissingScopes example_collaborators (details_prompt example_details))
     = Some [''openid'', ''profile'', ''offline_access'']"
    by (simp add: example_collaborators_def example_details_def example_prompt_def)
  from reserved_oidc_scopes_never_surface [OF h] h p show ?thesis
    by simp
qed

text \<open>
  C6. In \<^verbatim>\<open>parseMissingResourceScopesInfo\<close>, when the mapping holds an indicator other
  than the reserved one that resolves to no resource, the whole call fails with an
  invalid-target error, whatever the other entries are and whichever rejection settles
  first.
\<close>

theorem resource_not_found_is_fatal:
  assumes "(resourceIndicator, scopeNames) \<in> set entries"
    and "resourceIndicator \<noteq> ReservedResource_Organization"
    and "findResourceByIndicator q resourceIndicator = None"
  shows "\<exists>message. parseMissingResourceScopesInfo q sched (Some entries) = Inl (InvalidTarget message)"
proof -
  have "resourceWithScopes q sched (resourceIndicator, scopeNames) =
          Inl (InvalidTarget (''resource with indicator '' @ resourceIndicator @ '' not found''))"
    using assms(2,3) by (simp add: resourceWithScopes_def)
  from parse_fails [OF assms(1) this] show ?thesis
    by (auto simp: isInvalidTarget_iff)
qed

text \<open>
  On the concrete tenant: the first indicator of the mapping resolves and the second
  does not.
\<close>

theorem resource_not_found_is_fatal_witness:
  "(''https://other'', [''read''])
     \<in> set [(''https://api'', [''read'']), (''https://other'', [''read''])] \<and>
   ''https://other'' \<noteq> ReservedResource_Organization \<and>
   findResourceByIndicator example_queries ''https://other'' = None \<and>
   findResourceByIndicator example_queries ''https://api'' = Some example_resource \<and>
   (\<exists>message.
      parseMissingResourceScopesInfo example_queries first_settled
        (Some [(''https://api'', [''read'']), (''https://other'', [''read''])])
      = Inl (InvalidTarget message))"
proof -
  have h1: "(''https://other'', [''read''])
     \<in> set [(''https://api'', [''read'']), (''https://other'', [''read''])]"
    by simp
  have h2: "''https://other'' \<noteq> ReservedResource_Organization"
    by (simp add: ReservedResource_Organization_def)
  have h3: "findResourceByIndicator example_queries ''https://other'' = None"
    by (simp add: example_queries_def example_findResourceByIndicator_def)
  have h4: "findResourceByIndicator example_queries ''https://api'' = Some example_resource"
    by (simp add: example_queries_def example_findResourceByIndicator_def)
  note c = resource_not_found_is_fatal [OF h1 h2 h3, of first_settled]
  from h1 h2 h3 h4 c show ?thesis by (intro conjI)
qed

text \<open>
  C7. When \<^verbatim>\<open>isDevFeaturesEnabled\<close> is off, the filtered mapping is the input mapping,
  and \<^verbatim>\<open>filterAndParseMissingResourceScopes\<close> is \<^verbatim>\<open>parseMissingResourceScopesInfo\<close> on
  the input mapping. The mapping is the entry list of an object, so its keys are
  distinct.
\<close>

theorem filter_skipped_when_flag_disabled:
  assumes "\<not> isDevFeaturesEnabled c"
    and "distinct (map fst resourceScopes)"
  shows "filteredResourceScopes c sched resourceScopes userId organizationId = Inr resourceScopes \<and>
         filterAndParseMissingResourceScopes c q sched resourceScopes userId organizationId =
           parseMissingResourceScopesInfo q sched (Some resourceScopes)"
proof -
  have "map (\<lambda>(resourceIndicator, missingScopes). Inr (resourceIndicator, missingScopes)) resourceScopes
          = map (\<lambda>entry. Inr (id entry)) resourceScopes"
    by (simp add: case_prod_beta)
  then have "filteredResourceScopes c sched resourceScopes userId organizationId
               = Inr (Object_fromEntries resourceScopes)"
    using assms(1) Promise_all_map_Inr [of sched id resourceScopes]
    by (simp add: filteredResourceScopes_def)
  then show ?thesis
    using assms(2) by (simp add: Object_fromEntries_distinct filterAndParseMissingResourceScopes_def)
qed

text \<open>
  On the concrete tenant, where the flag is off.
\<close>

theorem filter_skipped_when_flag_disabled_witness:
  "\<not> isDevFeaturesEnabled example_collaborators \<and>
   distinct (map fst [(''https://api'', [''read'', ''write'']), (''https://other'', [''read''])]) \<and>
   filteredResourceScopes example_collaborators first_settled
     [(''https://api'', [''read'', ''write'']), (''https://other'', [''read''])] ''u1'' None
   = Inr [(''https://api'', [''read'', ''write'']), (''https://other'', [''read''])]"
proof -
  have h1: "\<not> isDevFeaturesEnabled example_collaborators"
    by (simp add: example_collaborators_def)
  have h2: "distinct (map fst [(''https://api'', [''read'', ''write'']), (''https://other'', [''read''])])"
    by simp
  note c = filter_skipped_when_flag_disabled [OF h1 h2, of first_settled "''u1''" None
      example_queries, THEN conjunct1]
  from h1 h2 c show ?thesis by (intro conjI)
qed

text \<open>
  C8. When the missing OIDC scopes of the prompt do not include the organizations
  scope, every response of the GET handler has an empty \<open>organizations\<close> list, and the
  outcome of the handler does not depend on \<^verbatim>\<open>getOrganizationsByUserId\<close>: the lookup is
  not consulted.
\<close>

theorem no_organizations_without_scope:
  assumes "\<not> includesOrganizations (ms_missingOIDCScope (getMissingScopes c (details_prompt d)))"
  shows "(\<forall>response. consentRoutes_get c q sched d = Inr response \<longrightarrow>
            response_organizations response = []) \<and>
         (\<forall>lookup. consentRoutes_get c (q\<lparr>getOrganizationsByUserId := lookup\<rparr>) sched d
                     = consentRoutes_get c q sched d)"
proof -
  have first: "response_organizations response = []"
    if r: "consentRoutes_get c q sched d = Inr response" for response
    using consentRoutes_get_Inr [OF r] assms by (simp add: Promise_all_Nil)
  have second: "consentRoutes_get c (q\<lparr>getOrganizationsByUserId := lookup\<rparr>) sched d
                     = consentRoutes_get c q sched d" for lookup
    using assms
    by (simp add: consentRoutes_get_def Let_def filterAndParse_getOrganizations
        Promise_all_Nil split: option.splits sum.splits)
  from first second show ?thesis by blast
qed

text \<open>
  On the concrete tenant: the user belongs to one organization, the prompt does not
  miss the organizations scope, and the response lists no organization.
\<close>

theorem no_organizations_without_scope_witness:
  "\<not> includesOrganizations
       (ms_missingOIDCScope (getMissingScopes example_collaborators (details_prompt example_details))) \<and>
   getOrganizationsByUserId example_queries ''u1''
     = [\<lparr>organization_id = ''org-1'', organization_name = ''One''\<rparr>] \<and>
   response_organizations
     \<lparr>response_application = [(''id'', ''app'')],
      response_user = [(''id'', ''u1'')], response_organizations = [],
      response_missingOIDCScope = Some [''profile''],
      response_missingResourceScopes =
        [\<lparr>mrs_resource = \<lparr>info_id = ''r1'', info_name = ''API''\<rparr>,
          mrs_scopes = [\<lparr>sinfo_id = ''s1'', sinfo_name = ''read'', sinfo_description = None\<rparr>]\<rparr>],
      response_redirectUri = ''https://app/callback''\<rparr> = [] \<and>
   consentRoutes_get example_collaborators example_queries first_settled example_details =
     Inr \<lparr>response_application = [(''id'', ''app'')],
          response_user = [(''id'', ''u1'')], response_organizations = [],
          response_missingOIDCScope = Some [''profile''],
          response_missingResourceScopes =
            [\<lparr>mrs_resource = \<lparr>info_id = ''r1'', info_name = ''API''\<rparr>,
              mrs_scopes = [\<lparr>sinfo_id = ''s1'', sinfo_name = ''read'', sinfo_description = None\<rparr>]\<rparr>],
          response_redirectUri = ''https://app/callback''\<rparr>"
proof -
  have h: "\<not> includesOrganizations
       (ms_missingOIDCScope (getMissingScopes example_collaborators (details_prompt example_details)))"
    by (simp add: includesOrganizations_def example_collaborators_def example_details_def
        example_prompt_def UserScope_Organizations_def)
  have g: "consentRoutes_get example_collaborators example_queries first_settled example_details =
     Inr \<lparr>response_application = [(''id'', ''app'')],
          response_user = [(''id'', ''u1'')], response_organizations = [],
          response_missingOIDCScope = Some [''profile''],
          response_missingResourceScopes =
            [\<lparr>mrs_resource = \<lparr>info_id = ''r1'', info_name = ''API''\<rparr>,
              mrs_scopes = [\<lparr>sinfo_id = ''s1'', sinfo_name = ''read'', sinfo_description = None\<rparr>]\<rparr>],
          response_redirectUri = ''https://app/callback''\<rparr>"
    by code_simp
  have o: "getOrganizationsByUserId example_queries ''u1''
     = [\<lparr>organization_id = ''org-1'', organization_name = ''One''\<rparr>]"
    by (simp add: example_queries_def example_getOrganizationsByUserId_def)
  note c = no_organizations_without_scope [OF h, THEN conjunct1, rule_format, OF g]
  from h o c g show ?thesis by (intro conjI)
qed

text \<open>
  C9. When \<^verbatim>\<open>parseMissingResourceScopesInfo\<close> succeeds, its output is the
  concatenation, in the iteration order of the mapping, of what every entry yields on
  its own, which is one record or none; and the output is the same for every order in
  which the lookups settle.
\<close>

theorem output_follows_mapping_order:
  assumes "parseMissingResourceScopesInfo q sched (Some entries) = Inr out"
  shows "out = concat (map (\<lambda>entry. case parseMissingResourceScopesInfo q sched (Some [entry]) of
                                      Inl e \<Rightarrow> [] | Inr records \<Rightarrow> records) entries) \<and>
         (\<forall>entry \<in> set entries.
            \<exists>records. parseMissingResourceScopesInfo q sched (Some [entry]) = Inr records \<and>
                      length records \<le> 1) \<and>
         (\<forall>sched'. parseMissingResourceScopesInfo q sched' (Some entries) = Inr out)"
proof -
  have one: "length records \<le> 1"
    if "parseMissingResourceScopesInfo q sched (Some [entry]) = Inr records" for entry records
    using that by (auto simp: parse_single split: sum.splits if_splits)
  have "out = concat (map (\<lambda>entry. case parseMissingResourceScopesInfo q sched (Some [entry]) of
                                      Inl e \<Rightarrow> [] | Inr records \<Rightarrow> records) entries) \<and>
        (\<forall>entry \<in> set entries.
            \<exists>records. parseMissingResourceScopesInfo q sched (Some [entry]) = Inr records)"
    using assms
  proof (induction entries arbitrary: out)
    case Nil
    then show ?case by (simp add: parse_Nil)
  next
    case (Cons entry entries)
    from Cons.prems obtain o1 o2 where
      o1: "parseMissingResourceScopesInfo q sched (Some [entry]) = Inr o1" and
      o2: "parseMissingResourceScopesInfo q sched (Some entries) = Inr o2" and
      out: "out = o1 @ o2"
      using parse_append [of q sched "[entry]" entries out] by auto
    from Cons.IH [OF o2] o1 out show ?case by simp
  qed
  with one parse_sched [OF assms] show ?thesis by blast
qed

text \<open>
  On the concrete tenant: the organization entry comes first, then an entry of which
  no scope resolves, then one that yields a record.
\<close>

theorem output_follows_mapping_order_witness:
  "parseMissingResourceScopesInfo example_queries first_settled
     (Some [(ReservedResource_Organization, [''invite'']), (''https://api'', [''write'']),
            (''https://api'', [''read''])])
   = Inr [\<lparr>mrs_resource = \<lparr>info_id = ReservedResource_Organization,
                            info_name = ReservedResource_Organization\<rparr>,
           mrs_scopes = [\<lparr>sinfo_id = ''os1'', sinfo_name = ''invite'', sinfo_description = None\<rparr>]\<rparr>,
          \<lparr>mrs_resource = \<lparr>info_id = ''r1'', info_name = ''API''\<rparr>,
           mrs_scopes = [\<lparr>sinfo_id = ''s1'', sinfo_name = ''read'', sinfo_description = None\<rparr>]\<rparr>] \<and>
   parseMissingResourceScopesInfo example_queries first_settled
     (Some [(ReservedResource_Organization, [''invite''])])
   = Inr [\<lparr>mrs_resource = \<lparr>info_id = ReservedResource_Organization,
                            info_name = ReservedResource_Organization\<rparr>,
           mrs_scopes = [\<lparr>sinfo_id = ''os1'', sinfo_name = ''invite'', sinfo_description = None\<rparr>]\<rparr>] \<and>
   parseMissingResourceScopesInfo example_queries first_settled (Some [(''https://api'', [''write''])])
   = Inr [] \<and>
   parseMissingResourceScopesInfo example_queries first_settled (Some [(''https://api'', [''read''])])
   = Inr [\<lparr>mrs_resource = \<lparr>info_id = ''r1'', info_name = ''API''\<rparr>,
           mrs_scopes = [\<lparr>sinfo_id = ''s1'', sinfo_name = ''read'', sinfo_description = None\<rparr>]\<rparr>]"
proof -
  have h: "parseMissingResourceScopesInfo example_queries first_settled
     (Some [(ReservedResource_Organization, [''invite'']), (''https://api'', [''write'']),
            (''https://api'', [''read''])])
   = Inr [\<lparr>mrs_resource = \<lparr>info_id = ReservedResource_Organization,
                            info_name = ReservedResource_Organization\<rparr>,
           mrs_scopes = [\<lparr>sinfo_id = ''os1'', sinfo_name = ''invite'', sinfo_description = None\<rparr>]\<rparr>,
          \<lparr>mrs_resource = \<lparr>info_id = ''r1'', info_name = ''API''\<rparr>,
           mrs_scopes = [\<lparr>sinfo_id = ''s1'', sinfo_name = ''read'', sinfo_description = None\<rparr>]\<rparr>]"
    by code_simp
  have s1: "parseMissingResourceScopesInfo example_queries first_settled
     (Some [(ReservedResource_Organization, [''invite''])])
   = Inr [\<lparr>mrs_resource = \<lparr>info_id = ReservedResource_Organization,
                            info_name = ReservedResource_Organization\<rparr>,
           mrs_scopes = [\<lparr>sinfo_id = ''os1'', sinfo_name = ''invite'', sinfo_description = None\<rparr>]\<rparr>]"
    by code_simp
  have s2: "parseMissingResourceScopesInfo example_queries first_settled
     (Some [(''https://api'', [''write''])]) = Inr []"
    by code_simp
  have s3: "parseMissingResourceScopesInfo example_queries first_settled (Some [(''https://api'', [''read''])])
   = Inr [\<lparr>mrs_resource = \<lparr>info_id = ''r1'', info_name = ''API''\<rparr>,
           mrs_scopes = [\<lparr>sinfo_id = ''s1'', sinfo_name = ''read'', sinfo_description = None\<rparr>]\<rparr>]"
    by code_simp
  note c = output_follows_mapping_order [OF h, THEN conjunct2, THEN conjunct2, rule_format,
      of first_settled]
  from c s1 s2 s3 show ?thesis by (intro conjI)
qed

text \<open>
  C10. When \<open>organizationIds\<close> is absent or empty, the POST handler is the call of
  \<^verbatim>\<open>consent\<close> alone: it answers with the redirect target (or fails with the error of
  \<^verbatim>\<open>consent\<close>), makes no insert, tests neither the session nor \<^verbatim>\<open>client_id\<close>, and
  does not depend on the membership validator.
\<close>

theorem no_organizations_goes_straight_to_consent:
  assumes "organizationIds = None \<or> organizationIds = Some []"
  shows "consentRoutes_post c w d organizationIds =
           (case consent c d of Inl e \<Rightarrow> Inl e | Inr redirect \<Rightarrow> Inr \<lparr>redirectTo = redirect\<rparr>,
            w\<lparr>consentCalls := consentCalls w + 1\<rparr>) \<and>
         (\<forall>validate.
            consentRoutes_post (c\<lparr>validateUserConsentOrganizationMembership := validate\<rparr>) w d
              organizationIds
            = consentRoutes_post c w d organizationIds)"
  using assms by (auto simp: consentRoutes_post_def split: sum.splits)

text \<open>
  On the concrete tenant: a request without \<open>organizationIds\<close> on an interaction
  without a session, and one with an empty list on an interaction without
  \<^verbatim>\<open>client_id\<close>.
\<close>

theorem no_organizations_goes_straight_to_consent_witness:
  "consentRoutes_post example_collaborators example_world example_details_without_session None
     = (Inr \<lparr>redirectTo = ''https://app/callback''\<rparr>, \<lparr>insertCalls = [], consentCalls = 1\<rparr>) \<and>
   consentRoutes_post example_collaborators example_world example_details_without_client (Some [])
     = (Inr \<lparr>redirectTo = ''https://app/callback''\<rparr>, \<lparr>insertCalls = [], consentCalls = 1\<rparr>)"
proof -
  have h1: "(None :: string list option) = None \<or> (None :: string list option) = Some []"
    by simp
  have h2: "Some ([] :: string list) = None \<or> Some ([] :: string list) = Some []"
    by simp
  note t1 = no_organizations_goes_straight_to_consent [OF h1, THEN conjunct1,
      of example_collaborators example_world example_details_without_session]
  note t2 = no_organizations_goes_straight_to_consent [OF h2, THEN conjunct1,
      of example_collaborators example_world example_details_without_client]
  from t1 t2 show ?thesis
    by (simp add: example_collaborators_def example_world_def)
qed

end
